theory Spec2Isabelle
  imports Main
begin

section \<open>Data model of \<open>database.py\<close>\<close>

text \<open>
  Values that reach the database layer inside an \<open>image_info\<close> request: JSON-like data,
  byte strings, and the type object \<open>str\<close> itself (the only value for which the
  comparison \<open>x != str\<close> is false). \<open>VObject\<close> stands for any other object (a float, a
  tuple, ...): it is no \<open>str\<close>, \<open>int\<close> or \<open>dict\<close>, it differs from \<open>str\<close>, and it has no
  method \<open>lower\<close>. Dictionary keys are strings; characters are bytes.
\<close>

datatype pyval =
    VNone
  | VBool bool
  | VInt int
  | VStr string
  | VBytes string
  | VList "pyval list"
  | VDict "(string \<times> pyval) list"
  | VStrType
  | VObject nat

text \<open>
  The exceptions the module raises, by class, with their message, and those that
  \<open>save()\<close> of the object-document mapper raises: ValidationError from the field
  checks, OverflowError and InvalidDocument from the encoding of the document.
\<close>

datatype error =
    TypeError string
  | AttributeError string
  | ValueError string
  | IndexError string
  | KeyError string
  | ValidationError string
  | OverflowError string
  | InvalidDocument string

text \<open>
  \<open>class Image(MongoModel)\<close>: the document as stored, each field with the type its field
  class converts to (\<open>CharField\<close> a string, \<open>IntegerField\<close> an integer, \<open>ListField\<close> a list of
  any values). \<open>image_id\<close> is the primary key. \<open>image_field\<close> is the field \<open>image\<close>, which
  this module never sets. A list field that is not set reads as the empty list.
\<close>

record Image =
  image_id :: string
  image_field :: "pyval option"
  user_id :: string
  timestamp :: nat
  width :: int
  height :: int
  format :: string
  description :: string
  child_ids :: "pyval list"
  process_history :: "pyval list"
  processing_time :: int
  process :: string

text \<open>
  A model instance in memory: the declared fields, plus the attribute \<open>heart_rates\<close> that
  \<open>update_description\<close> assigns. \<open>save()\<close> writes the declared fields only.
\<close>

record Image_obj = Image +
  heart_rates :: "pyval option"

definition load :: "Image \<Rightarrow> Image_obj" where
  "load doc = Image.extend doc (Image_obj.fields None)"

definition to_son :: "Image_obj \<Rightarrow> Image" where
  "to_son obj = Image.truncate obj"

text \<open>
  \<open>class User(MongoModel)\<close>; \<open>uploads\<close> is a dictionary from root id to most recent id,
  empty when the field is not set.
\<close>

record User =
  u_user_id :: string
  uploads :: "(pyval \<times> pyval) list"

text \<open>The two collections of the database.\<close>

record store =
  images :: "Image list"
  users :: "User list"

section \<open>Storage primitives\<close>

text \<open>The first exception of a sequence of steps.\<close>

fun first_failure :: "error option list \<Rightarrow> error option" where
  "first_failure [] = None"
| "first_failure (Some e # cs) = Some e"
| "first_failure (None # cs) = first_failure cs"

text \<open>
  Encoding a value for the database: an integer must fit eight bytes (OverflowError
  otherwise); a type or any other object cannot be encoded (InvalidDocument).
\<close>

definition int64 :: "int \<Rightarrow> bool" where
  "int64 n = (- (2 ^ 63) \<le> n \<and> n < 2 ^ 63)"

fun encode_error :: "pyval \<Rightarrow> error option" where
  "encode_error (VInt n) =
     (if int64 n then None
      else Some (OverflowError ''MongoDB can only handle up to 8-byte ints''))"
| "encode_error (VList vs) = first_failure (map encode_error vs)"
| "encode_error (VDict d) = first_failure (map (\<lambda>kv. encode_error (snd kv)) d)"
| "encode_error VStrType = Some (InvalidDocument ''cannot encode object'')"
| "encode_error (VObject n) = Some (InvalidDocument ''cannot encode object'')"
| "encode_error v = None"

text \<open>
  The write that \<open>save()\<close> ends with: replace the one document with the same primary
  key, or insert the document when there is none (an upsert by \<open>_id\<close>).
\<close>

fun upsert_image :: "Image \<Rightarrow> Image list \<Rightarrow> Image list" where
  "upsert_image i [] = [i]"
| "upsert_image i (x # xs) =
     (if image_id x = image_id i then i # xs else x # upsert_image i xs)"

fun upsert_user :: "User \<Rightarrow> User list \<Rightarrow> User list" where
  "upsert_user u [] = [u]"
| "upsert_user u (x # xs) =
     (if u_user_id x = u_user_id u then u # xs else x # upsert_user u xs)"

text \<open>
  \<open>save()\<close> on an Image: the field checks first (a \<open>CharField\<close> must not be blank), then
  the encoding of the document, then the write. An exception leaves the collection as
  it was.
\<close>

definition save_image :: "Image \<Rightarrow> Image list \<Rightarrow> error + Image list" where
  "save_image i coll =
     (if image_id i = [] \<or> user_id i = [] \<or> format i = [] \<or> description i = []
         \<or> process i = []
      then Inl (ValidationError ''must not be blank'')
      else
        (case first_failure
                [encode_error (VInt (width i)), encode_error (VInt (height i)),
                 encode_error (VList (child_ids i)), encode_error (VList (process_history i)),
                 encode_error (VInt (processing_time i))] of
           Some e \<Rightarrow> Inl e
         | None \<Rightarrow> Inr (upsert_image i coll)))"

text \<open>
  \<open>save()\<close> on a User: the id must not be blank, and every key of \<open>uploads\<close> must be a
  string without \<open>.\<close> and \<open>$\<close>; then the encoding of the values, then the write.
\<close>

definition uploads_key_ok :: "pyval \<Rightarrow> bool" where
  "uploads_key_ok k =
     (case k of VStr s \<Rightarrow> CHR ''.'' \<notin> set s \<and> CHR ''$'' \<notin> set s | _ \<Rightarrow> False)"

definition save_user :: "User \<Rightarrow> User list \<Rightarrow> error + User list" where
  "save_user u ucoll =
     (if u_user_id u = [] then Inl (ValidationError ''must not be blank'')
      else if \<not> list_all uploads_key_ok (map fst (uploads u))
      then Inl (ValidationError ''invalid dictionary key'')
      else
        (case first_failure (map (\<lambda>kv. encode_error (snd kv)) (uploads u)) of
           Some e \<Rightarrow> Inl e
         | None \<Rightarrow> Inr (upsert_user u ucoll)))"

text \<open>\<open>d[k] = v\<close> on a dictionary; a list or a dictionary cannot be a key.\<close>

definition hashable :: "pyval \<Rightarrow> bool" where
  "hashable k = (case k of VList _ \<Rightarrow> False | VDict _ \<Rightarrow> False | _ \<Rightarrow> True)"

fun dict_set :: "('k \<times> 'v) list \<Rightarrow> 'k \<Rightarrow> 'v \<Rightarrow> ('k \<times> 'v) list" where
  "dict_set [] k v = [(k, v)]"
| "dict_set ((k', v') # d) k v =
     (if k' = k then (k, v) # d else (k', v') # dict_set d k v)"

section \<open>Lookups\<close>

text \<open>
  \<open>find_image\<close>, lines 246-258: scan \<open>Image.objects.all()\<close>, return the first document whose
  id, as a string, equals the argument; \<open>None\<close> when there is none.
\<close>

fun find_image :: "Image list \<Rightarrow> pyval \<Rightarrow> Image option" where
  "find_image [] iid = None"
| "find_image (img # rest) iid =
     (if VStr (image_id img) = iid then Some img else find_image rest iid)"

text \<open>\<open>find_image_child\<close>, lines 274-286.\<close>

fun find_image_child :: "Image list \<Rightarrow> pyval \<Rightarrow> Image option" where
  "find_image_child [] iid = None"
| "find_image_child (img # rest) iid =
     (if VStr (image_id img) = iid then Some img else find_image_child rest iid)"

text \<open>\<open>find_user\<close>, lines 288-301.\<close>

fun find_user :: "User list \<Rightarrow> string \<Rightarrow> User option" where
  "find_user [] uid = None"
| "find_user (user # rest) uid =
     (if u_user_id user = uid then Some user else find_user rest uid)"

text \<open>
  \<open>find_image_parent\<close>, lines 260-272. \<open>image.process_history[-1]\<close> raises AttributeError
  when the image is \<open>None\<close> and IndexError when the history is empty; the function catches
  neither.
\<close>

definition find_image_parent :: "Image list \<Rightarrow> pyval \<Rightarrow> error + Image option" where
  "find_image_parent coll iid =
     (case find_image coll iid of
        None \<Rightarrow> Inl (AttributeError ''NoneType object has no attribute process_history'')
      | Some img \<Rightarrow>
          (case process_history img of
             [] \<Rightarrow> Inl (IndexError ''list index out of range'')
           | p # ps \<Rightarrow> Inr (find_image coll (last (p # ps)))))"

section \<open>External collaborators\<close>

text \<open>
  What the module uses and does not define: the standard library's \<open>base64.b64decode\<close>
  (\<open>None\<close> when it raises) and \<open>base64.b64encode\<close>, the class \<open>Processing\<close> of the module
  \<open>processing\<close> (which of its attributes are callable, and its attribute names), and the
  clock read by \<open>datetime.datetime.now()\<close>; and of the object-document mapper, what a
  \<open>CharField\<close> makes of a value that is not a string and an \<open>IntegerField\<close> of a value that
  is neither an \<open>int\<close> nor a \<open>bool\<close> (\<open>None\<close> when the field refuses the value).
\<close>

record env =
  b64decode :: "pyval \<Rightarrow> string option"
  b64encode :: "string \<Rightarrow> string"
  callable_Processing :: "string \<Rightarrow> bool"
  dir_Processing :: "string list"
  now :: nat
  char_other :: "pyval \<Rightarrow> string option"
  int_other :: "pyval \<Rightarrow> int option"

text \<open>\<open>dir(object)\<close>, the attribute names of the builtin base class (CPython 3.6 to 3.10).\<close>

definition dir_object :: "string list" where
  "dir_object =
     [''__class__'', ''__delattr__'', ''__dir__'', ''__doc__'', ''__eq__'', ''__format__'',
      ''__ge__'', ''__getattribute__'', ''__gt__'', ''__hash__'', ''__init__'',
      ''__init_subclass__'', ''__le__'', ''__lt__'', ''__ne__'', ''__new__'', ''__reduce__'',
      ''__reduce_ex__'', ''__repr__'', ''__setattr__'', ''__sizeof__'', ''__str__'',
      ''__subclasshook__'']"

section \<open>The validator\<close>

definition isinstance_str :: "pyval \<Rightarrow> bool" where
  "isinstance_str v = (case v of VStr _ \<Rightarrow> True | _ \<Rightarrow> False)"

text \<open>\<open>bool\<close> is a subclass of \<open>int\<close>.\<close>

definition isinstance_int :: "pyval \<Rightarrow> bool" where
  "isinstance_int v = (case v of VInt _ \<Rightarrow> True | VBool _ \<Rightarrow> True | _ \<Rightarrow> False)"

definition lower_char :: "char \<Rightarrow> char" where
  "lower_char c =
     (let n = (of_char c :: nat) in if 65 \<le> n \<and> n \<le> 90 then char_of (n + 32) else c)"

text \<open>
  The method call \<open>v.lower()\<close>: defined on \<open>str\<close> and \<open>bytes\<close> instances; on the type
  \<open>str\<close> itself it is the unbound method called without its argument, a TypeError; any
  other value has no such attribute.
\<close>

definition py_lower :: "pyval \<Rightarrow> error + pyval" where
  "py_lower v =
     (case v of
        VStr s \<Rightarrow> Inr (VStr (map lower_char s))
      | VBytes b \<Rightarrow> Inr (VBytes (map lower_char b))
      | VStrType \<Rightarrow> Inl (TypeError ''unbound method str.lower() needs an argument'')
      | _ \<Rightarrow> Inl (AttributeError ''object has no attribute lower''))"

text \<open>
  \<open>_is_base64\<close>, lines 217-230: re-encode the decoded data and compare with the input;
  any exception means \<open>False\<close>. \<open>b64encode\<close> returns \<open>bytes\<close>.
\<close>

definition is_base64 :: "env \<Rightarrow> pyval \<Rightarrow> bool" where
  "is_base64 E image_data =
     (case b64decode E image_data of
        None \<Rightarrow> False
      | Some raw \<Rightarrow> VBytes (b64encode E raw) = image_data)"

text \<open>
  \<open>valid_process\<close>, lines 156-162: the names of \<open>dir(object)\<close> that are callable
  attributes of \<open>Processing\<close>.
\<close>

definition valid_process :: "env \<Rightarrow> pyval \<Rightarrow> bool" where
  "valid_process E p =
     (let valid_processes = filter (callable_Processing E) dir_object
      in if p \<notin> set (map VStr valid_processes) then False else True)"

text \<open>
  \<open>_image_parameter_check\<close>, lines 107-154, is a sequence of guarded \<open>raise\<close> statements.
  Each group of consecutive guards on one field is a function returning the exception
  raised there, or \<open>None\<close> when control passes on.
\<close>

text \<open>Lines 120-123.\<close>

definition check_image_id :: "(string \<times> pyval) list \<Rightarrow> error option" where
  "check_image_id image_info =
     (case map_of image_info ''image_id'' of
        None \<Rightarrow> Some (AttributeError ''image_info must have image_id.'')
      | Some v \<Rightarrow>
          if \<not> isinstance_str v then Some (AttributeError ''image_id must be type str.'')
          else None)"

text \<open>Lines 124-127.\<close>

definition check_image :: "env \<Rightarrow> (string \<times> pyval) list \<Rightarrow> error option" where
  "check_image E image_info =
     (case map_of image_info ''image'' of
        None \<Rightarrow> Some (AttributeError ''image_info must have image data.'')
      | Some v \<Rightarrow>
          if \<not> is_base64 E v then Some (TypeError ''image must be type base64.'')
          else None)"

text \<open>Lines 128-135; both type errors carry the message about the height.\<close>

definition check_height_width :: "(string \<times> pyval) list \<Rightarrow> error option" where
  "check_height_width image_info =
     (case map_of image_info ''height'' of
        None \<Rightarrow> Some (AttributeError ''image_info must have height.'')
      | Some h \<Rightarrow>
          (case map_of image_info ''width'' of
             None \<Rightarrow> Some (AttributeError ''image_info must have width.'')
           | Some w \<Rightarrow>
               if \<not> isinstance_int h then Some (TypeError ''height must be type int.'')
               else if \<not> isinstance_int w then Some (TypeError ''height must be type int.'')
               else None))"

text \<open>
  Lines 136-142. Line 138 compares the value with the type: \<open>image_info["format"] != str\<close>.
\<close>

definition check_format :: "(string \<times> pyval) list \<Rightarrow> error option" where
  "check_format image_info =
     (case map_of image_info ''format'' of
        None \<Rightarrow> Some (AttributeError ''image_info must have format.'')
      | Some f \<Rightarrow>
          if f \<noteq> VStrType then Some (TypeError ''format must be type str'')
          else
            (case py_lower f of
               Inl e \<Rightarrow> Some e
             | Inr l \<Rightarrow>
                 if l \<notin> set (map VStr [''jpg'', ''jpeg'', ''png'', ''tiff'', ''gif''])
                 then Some (ValueError ''format invalid.'')
                 else None))"

text \<open>Lines 143-147.\<close>

definition check_processing_time :: "(string \<times> pyval) list \<Rightarrow> error option" where
  "check_processing_time image_info =
     (case map_of image_info ''processing_time'' of
        None \<Rightarrow> Some (AttributeError ''image_info must have processing_time.'')
      | Some v \<Rightarrow>
          if \<not> isinstance_int v
          then Some (TypeError ''processing_time must be type int in milliseconds.'')
          else None)"

text \<open>Lines 148-153.\<close>

definition check_process :: "env \<Rightarrow> (string \<times> pyval) list \<Rightarrow> error option" where
  "check_process E image_info =
     (case map_of image_info ''process'' of
        None \<Rightarrow> Some (AttributeError ''image_info must have process.'')
      | Some v \<Rightarrow>
          if \<not> isinstance_str v then Some (TypeError ''process must be type str.'')
          else if \<not> valid_process E v then Some (ValueError ''process invalid.'')
          else None)"

text \<open>The first guard that fires ends the function.\<close>

definition image_parameter_check :: "env \<Rightarrow> pyval \<Rightarrow> error + (string \<times> pyval) list" where
  "image_parameter_check E image_info =
     (case image_info of
        VDict d \<Rightarrow>
          (case first_failure
                  [check_image_id d, check_image E d, check_height_width d, check_format d,
                   check_processing_time d, check_process E d] of
             Some e \<Rightarrow> Inl e
           | None \<Rightarrow> Inr d)
      | _ \<Rightarrow> Inl (TypeError ''image_info must be type dict.''))"

section \<open>Users and the uploads ledger\<close>

text \<open>\<open>add_user\<close>, lines 164-180; returns the new user and the collection it was saved to.\<close>

definition add_user :: "User list \<Rightarrow> string \<Rightarrow> error + User \<times> User list" where
  "add_user ucoll uid =
     (case find_user ucoll uid of
        Some test_user \<Rightarrow> Inl (ValueError ''User already exists!'')
      | None \<Rightarrow>
          (let u = \<lparr>u_user_id = uid, uploads = []\<rparr> in
           case save_user u ucoll of
             Inl e \<Rightarrow> Inl e
           | Inr ucoll' \<Rightarrow> Inr (u, ucoll')))"

text \<open>Lines 194-195: \<open>user.uploads[root_id] = recent_id\<close>, then \<open>user.save()\<close>.\<close>

definition store_upload ::
  "User \<Rightarrow> pyval \<Rightarrow> pyval \<Rightarrow> User list \<Rightarrow> error option \<times> User list" where
  "store_upload user root_id recent_id ucoll =
     (if \<not> hashable root_id then (Some (TypeError ''unhashable type''), ucoll)
      else
        (case save_user (user\<lparr>uploads := dict_set (uploads user) root_id recent_id\<rparr>) ucoll of
           Inl e \<Rightarrow> (Some e, ucoll)
         | Inr ucoll' \<Rightarrow> (None, ucoll')))"

text \<open>
  \<open>update_user_uploads\<close>, lines 182-195. \<open>process_history[0]\<close> raises IndexError on the
  empty list, before anything is read or written. A user created at line 193 stays
  stored when a later line raises.
\<close>

definition update_user_uploads ::
  "User list \<Rightarrow> string \<Rightarrow> pyval list \<Rightarrow> error option \<times> User list" where
  "update_user_uploads ucoll uid hist =
     (case hist of
        [] \<Rightarrow> (Some (IndexError ''list index out of range''), ucoll)
      | root_id # _ \<Rightarrow>
          (let recent_id = last hist in
           case find_user ucoll uid of
             Some user \<Rightarrow> store_upload user root_id recent_id ucoll
           | None \<Rightarrow>
               (case add_user ucoll uid of
                  Inl e \<Rightarrow> (Some e, ucoll)
                | Inr (user, ucoll') \<Rightarrow> store_upload user root_id recent_id ucoll')))"

section \<open>Adding an image\<close>

text \<open>
  \<open>_add_child\<close>, lines 90-105: fetch the parent again, append the child id to its
  \<open>child_ids\<close>, save it; returns the child id, or \<open>None\<close> when there is no such parent.
\<close>

definition add_child ::
  "Image list \<Rightarrow> pyval \<Rightarrow> pyval \<Rightarrow> (error + pyval option) \<times> Image list" where
  "add_child coll child_id parent_id =
     (case find_image coll parent_id of
        Some parent_image \<Rightarrow>
          (case save_image (parent_image\<lparr>child_ids := child_ids parent_image @ [child_id]\<rparr>)
                  coll of
             Inl e \<Rightarrow> (Inl e, coll)
           | Inr coll' \<Rightarrow> (Inr (Some child_id), coll'))
      | None \<Rightarrow> (Inr None, coll))"

text \<open>
  Lines 58-66 of \<open>add_image\<close>. The instance returned by \<open>find_image\<close> at line 60 is a copy
  of the stored document: \<open>append\<close> at line 62 changes that copy, which is never saved;
  \<open>_add_child\<close> reads the parent from the collection again. Attribute access on \<open>None\<close>
  (no such parent) raises AttributeError.
\<close>

definition link_parent ::
  "Image list \<Rightarrow> (string \<times> pyval) list \<Rightarrow> error + pyval list \<times> Image list" where
  "link_parent coll image_info =
     (case map_of image_info ''parent_id'' of
        Some parent_id \<Rightarrow>
          (case find_image coll parent_id of
             None \<Rightarrow> Inl (AttributeError ''NoneType object has no attribute process_history'')
           | Some parent_image \<Rightarrow>
               (case map_of image_info ''image_id'' of
                  None \<Rightarrow> Inl (KeyError ''image_id'')
                | Some child_id \<Rightarrow>
                    (case add_child coll child_id parent_id of
                       (Inl e, coll') \<Rightarrow> Inl e
                     | (Inr r, coll') \<Rightarrow>
                         Inr (process_history parent_image @ [parent_id], coll'))))
      | None \<Rightarrow> Inr ([], coll))"

text \<open>
  What the fields make of the values they are given: a \<open>CharField\<close> keeps a string and
  refuses the blank one; an \<open>IntegerField\<close> keeps an \<open>int\<close> and takes a \<open>bool\<close> to 0 or 1.
\<close>

definition clean_char :: "env \<Rightarrow> pyval \<Rightarrow> string option" where
  "clean_char E v =
     (case v of VStr s \<Rightarrow> (if s = [] then None else Some s) | _ \<Rightarrow> char_other E v)"

definition clean_int :: "env \<Rightarrow> pyval \<Rightarrow> int option" where
  "clean_int E v =
     (case v of
        VInt n \<Rightarrow> Some n
      | VBool b \<Rightarrow> Some (if b then 1 else 0)
      | _ \<Rightarrow> int_other E v)"

text \<open>
  Lines 77-87, the constructor call, with the conversion of the fields that \<open>save()\<close>
  at line 88 applies: each \<open>image_info[k]\<close> raises KeyError when the key is missing, and
  a value that a field refuses is a ValidationError. The constructor is reached with a
  non-empty history only, since an empty one raises at line 189.
\<close>

definition new_image ::
  "env \<Rightarrow> nat \<Rightarrow> string \<Rightarrow> (string \<times> pyval) list \<Rightarrow> pyval \<Rightarrow> pyval list \<Rightarrow> error + Image"
  where
  "new_image E current_time uid image_info descr hist =
     (case map_of image_info ''image_id'' of
        None \<Rightarrow> Inl (KeyError ''image_id'')
      | Some i \<Rightarrow>
     (case map_of image_info ''width'' of
        None \<Rightarrow> Inl (KeyError ''width'')
      | Some w \<Rightarrow>
     (case map_of image_info ''height'' of
        None \<Rightarrow> Inl (KeyError ''height'')
      | Some h \<Rightarrow>
     (case map_of image_info ''format'' of
        None \<Rightarrow> Inl (KeyError ''format'')
      | Some f \<Rightarrow>
     (case map_of image_info ''processing_time'' of
        None \<Rightarrow> Inl (KeyError ''processing_time'')
      | Some t \<Rightarrow>
     (case map_of image_info ''process'' of
        None \<Rightarrow> Inl (KeyError ''process'')
      | Some p \<Rightarrow>
     (case (clean_char E i, clean_int E w, clean_int E h, clean_char E f,
            clean_char E descr, clean_int E t, clean_char E p) of
        (Some i', Some w', Some h', Some f', Some d', Some t', Some p') \<Rightarrow>
          Inr \<lparr>image_id = i', image_field = None, user_id = uid, timestamp = current_time,
               width = w', height = h', format = f', description = d', child_ids = [],
               process_history = hist, processing_time = t', process = p'\<rparr>
      | _ \<Rightarrow> Inl (ValidationError ''invalid field value''))))))))"

text \<open>
  Lines 55-88 of \<open>add_image\<close>, what follows the validator: link to the parent, update the
  owner's ledger, default the description, save the new document. An exception leaves
  the store as the statements before it made it.
\<close>

definition add_image_validated ::
  "env \<Rightarrow> store \<Rightarrow> string \<Rightarrow> (string \<times> pyval) list \<Rightarrow> error option \<times> store" where
  "add_image_validated E st uid image_info =
     (let current_time = now E in
      case link_parent (images st) image_info of
        Inl e \<Rightarrow> (Some e, st)
      | Inr (hist, icoll) \<Rightarrow>
          (let st1 = st\<lparr>images := icoll\<rparr> in
           case update_user_uploads (users st1) uid hist of
             (Some e, ucoll) \<Rightarrow> (Some e, st1\<lparr>users := ucoll\<rparr>)
           | (None, ucoll) \<Rightarrow>
               (let st2 = st1\<lparr>users := ucoll\<rparr>;
                    descr = (case map_of image_info ''description'' of
                               None \<Rightarrow> VStr ''None''
                             | Some d \<Rightarrow> d)
                in case new_image E current_time uid image_info descr hist of
                     Inl e \<Rightarrow> (Some e, st2)
                   | Inr i \<Rightarrow>
                       (case save_image i (images st2) of
                          Inl e \<Rightarrow> (Some e, st2)
                        | Inr icoll' \<Rightarrow> (None, st2\<lparr>images := icoll'\<rparr>)))))"

text \<open>\<open>add_image\<close>, lines 43-88: the validator's exception leaves before anything is read.\<close>

definition add_image :: "env \<Rightarrow> store \<Rightarrow> string \<Rightarrow> pyval \<Rightarrow> error option \<times> store" where
  "add_image E st uid image_info =
     (case image_parameter_check E image_info of
        Inl e \<Rightarrow> (Some e, st)
      | Inr d \<Rightarrow> add_image_validated E st uid d)"

section \<open>Updating a description\<close>

text \<open>
  \<open>update_description\<close>, lines 197-215: for every document with the given id, assign
  the text to the attribute \<open>heart_rates\<close> of the instance and save the instance. The
  loop runs over the documents as they were when it started; an exception of \<open>save()\<close>
  ends it.
\<close>

fun update_description_loop ::
  "Image list \<Rightarrow> pyval \<Rightarrow> pyval \<Rightarrow> Image list \<times> bool \<Rightarrow> Image list \<times> (error + bool)" where
  "update_description_loop [] iid d (coll, image_exists) = (coll, Inr image_exists)"
| "update_description_loop (doc # rest) iid d (coll, image_exists) =
     (if VStr (image_id doc) = iid
      then (case save_image (to_son ((load doc)\<lparr>heart_rates := Some d\<rparr>)) coll of
              Inl e \<Rightarrow> (coll, Inl e)
            | Inr coll' \<Rightarrow> update_description_loop rest iid d (coll', True))
      else update_description_loop rest iid d (coll, image_exists))"

definition update_description ::
  "Image list \<Rightarrow> pyval \<Rightarrow> pyval \<Rightarrow> Image list \<times> (error + bool)" where
  "update_description coll iid d = update_description_loop coll iid d (coll, False)"

section \<open>What the specification calls a capability\<close>

text \<open>
  The specification's notion, for comparison with \<open>valid_process\<close>: a capability of the
  Processor is a callable attribute of the class \<open>Processing\<close>.
\<close>

definition spec_capabilities :: "env \<Rightarrow> string list" where
  "spec_capabilities E = filter (callable_Processing E) (dir_Processing E)"

section \<open>Concrete inputs\<close>

text \<open>
  An environment for the examples. The codec is given on the one payload the examples
  use, \<open>b64decode(b'aGk=') = b'hi'\<close> and \<open>b64encode(b'hi') = b'aGk='\<close>; the class
  \<open>Processing\<close> has the attributes of every class and one method of its own, \<open>hist_eq\<close>.
  The examples give the fields strings and integers only.
\<close>

definition example_env :: env where
  "example_env =
     \<lparr>b64decode = (\<lambda>v. if v = VBytes ''aGk='' then Some ''hi'' else None),
      b64encode = (\<lambda>raw. if raw = ''hi'' then ''aGk='' else []),
      callable_Processing = (\<lambda>n. n \<in> set (remove1 ''__doc__'' dir_object @ [''hist_eq''])),
      dir_Processing = dir_object @ [''__dict__'', ''__module__'', ''__weakref__'', ''hist_eq''],
      now = 0,
      char_other = (\<lambda>v. None),
      int_other = (\<lambda>v. None)\<rparr>"

text \<open>A stored lineage root with id \<open>a\<close>, and the store that holds it.\<close>

definition image_a :: Image where
  "image_a =
     \<lparr>image_id = ''a'', image_field = None, user_id = ''u1'', timestamp = 0,
      width = 4, height = 4, format = ''png'', description = ''old'',
      child_ids = [], process_history = [], processing_time = 5,
      process = ''hist_eq''\<rparr>"

definition store_a :: store where
  "store_a = \<lparr>images = [image_a], users = []\<rparr>"

text \<open>
  A request for a new root image \<open>b\<close> with every required field as the specification
  asks, and the same request as a child of \<open>a\<close>.
\<close>

definition request_root :: "(string \<times> pyval) list" where
  "request_root =
     [(''image_id'', VStr ''b''), (''image'', VBytes ''aGk=''), (''height'', VInt 4),
      (''width'', VInt 4), (''format'', VStr ''png''), (''processing_time'', VInt 5),
      (''process'', VStr ''hist_eq'')]"

definition request_child :: "(string \<times> pyval) list" where
  "request_child = request_root @ [(''parent_id'', VStr ''a'')]"

text \<open>
  Requests that fail validation for one reason each: a format outside the five, a
  process that \<open>Processing\<close> does not have, and no \<open>processing_time\<close>.
\<close>

definition request_bmp :: "(string \<times> pyval) list" where
  "request_bmp =
     [(''image_id'', VStr ''b''), (''image'', VBytes ''aGk=''), (''height'', VInt 4),
      (''width'', VInt 4), (''format'', VStr ''bmp''), (''processing_time'', VInt 5),
      (''process'', VStr ''hist_eq'')]"

definition request_unknown_process :: "(string \<times> pyval) list" where
  "request_unknown_process =
     [(''image_id'', VStr ''b''), (''image'', VBytes ''aGk=''), (''height'', VInt 4),
      (''width'', VInt 4), (''format'', VStr ''png''), (''processing_time'', VInt 5),
      (''process'', VStr ''no_such_process'')]"

definition request_no_time :: "(string \<times> pyval) list" where
  "request_no_time =
     [(''image_id'', VStr ''b''), (''image'', VBytes ''aGk=''), (''height'', VInt 4),
      (''width'', VInt 4), (''format'', VStr ''png''), (''process'', VStr ''hist_eq'')]"


section \<open>Facts about the storage primitives and the lookups\<close>

lemma find_image_upsert_same: "find_image (upsert_image i coll) (VStr (image_id i)) = Some i"
  by (induction coll) simp_all

lemma find_image_upsert_other:
  "x \<noteq> VStr (image_id i) \<Longrightarrow> find_image (upsert_image i coll) x = find_image coll x"
  by (induction coll) auto

lemma find_image_id: "find_image coll x = Some img \<Longrightarrow> VStr (image_id img) = x"
  by (induction coll) (auto split: if_splits)

lemma find_image_None:
  "find_image coll x = None \<longleftrightarrow> (\<forall>img \<in> set coll. VStr (image_id img) \<noteq> x)"
  by (induction coll) auto

text \<open>With unique primary keys, writing a document that is stored as it is changes nothing.\<close>

lemma upsert_image_present:
  "doc \<in> set coll \<Longrightarrow> distinct (map image_id coll) \<Longrightarrow> upsert_image doc coll = coll"
  by (induction coll) (auto simp: image_iff)

text \<open>A save that returns has written the document as it was given.\<close>

lemma save_image_result:
  "save_image i coll = Inr coll' \<Longrightarrow> coll' = upsert_image i coll"
  by (auto simp: save_image_def split: if_splits option.splits)

text \<open>The attribute \<open>heart_rates\<close> is not part of the document that \<open>save()\<close> writes.\<close>

lemma to_son_heart_rates: "to_son ((load doc)\<lparr>heart_rates := h\<rparr>) = doc"
  by (simp add: to_son_def load_def Image.defs Image_obj.defs)

text \<open>The stored image \<open>a\<close> passes the checks of \<open>save()\<close>.\<close>

lemma save_image_a: "save_image image_a coll = Inr (upsert_image image_a coll)"
  by (simp add: save_image_def image_a_def int64_def)

section \<open>Lookups\<close>

text \<open>
  C9. For every image id and every state of the Image collection, \<open>find_image_child\<close>
  returns exactly what \<open>find_image\<close> returns: the two scans are extensionally equal.
\<close>

theorem find_image_child_eq_find_image:
  "find_image_child coll iid = find_image coll iid"
  by (induction coll) simp_all

text \<open>
  What \<open>find_image_parent\<close> does on a stored image: with an empty history the index
  \<open>[-1]\<close> raises IndexError; with a non-empty history the result is the lookup of the
  history's last element.
\<close>

lemma find_image_parent_root:
  "find_image coll iid = Some img \<Longrightarrow> process_history img = [] \<Longrightarrow>
   find_image_parent coll iid = Inl (IndexError ''list index out of range'')"
  by (simp add: find_image_parent_def)

lemma find_image_parent_last:
  "find_image coll iid = Some img \<Longrightarrow> process_history img \<noteq> [] \<Longrightarrow>
   find_image_parent coll iid = Inr (find_image coll (last (process_history img)))"
  by (cases "process_history img") (simp_all add: find_image_parent_def)

text \<open>
  C5. The claim: on a lineage root \<open>find_image_parent\<close> reports a distinguishable
  not-found outcome and does not crash. The code at a stored root: image \<open>a\<close> is found,
  its history is empty, and \<open>find_image_parent\<close> ends in an uncaught IndexError, where
  the module's lookups report absence by returning \<open>None\<close>.
\<close>

theorem find_image_parent_root_raises:
  "find_image [image_a] (VStr ''a'') = Some image_a \<and> process_history image_a = []
   \<and> find_image_parent [image_a] (VStr ''a'') = Inl (IndexError ''list index out of range'')"
  by (simp add: find_image_parent_def image_a_def)

section \<open>\<open>update_description\<close>\<close>

lemma update_description_loop_keeps:
  "set docs \<subseteq> set coll \<Longrightarrow> distinct (map image_id coll) \<Longrightarrow>
   fst (update_description_loop docs iid d (coll, b)) = coll"
proof (induction docs arbitrary: b)
  case Nil
  then show ?case by simp
next
  case (Cons doc docs)
  then have mem: "doc \<in> set coll" and sub: "set docs \<subseteq> set coll" by simp_all
  show ?case
  proof (cases "save_image doc coll")
    case (Inl e)
    with Cons.IH [OF sub Cons.prems(2)] show ?thesis by (simp add: to_son_heart_rates)
  next
    case (Inr coll')
    then have "coll' = coll"
      using save_image_result [OF Inr] upsert_image_present [OF mem Cons.prems(2)] by simp
    with Inr Cons.IH [OF sub Cons.prems(2)] show ?thesis by (simp add: to_son_heart_rates)
  qed
qed

text \<open>
  On a collection with unique primary keys, \<open>update_description\<close> leaves every document
  as it was, for every id and text, whether it returns or raises.
\<close>

lemma update_description_keeps_store:
  "distinct (map image_id coll) \<Longrightarrow> fst (update_description coll iid d) = coll"
  by (simp add: update_description_def update_description_loop_keeps)

text \<open>
  C6. The claim: for a stored id, \<open>update_description\<close> overwrites the description with
  the given text, persists it and returns true. The code at the stored image \<open>a\<close> with
  description \<open>old\<close> and the text \<open>new\<close>: it returns true and the collection is the one it
  started from, the description still \<open>old\<close>, since line 212 assigns the text to
  \<open>heart_rates\<close>.
\<close>

theorem update_description_keeps_description:
  "update_description [image_a] (VStr ''a'') (VStr ''new'') = ([image_a], Inr True)
   \<and> description image_a = ''old''"
proof -
  have "VStr (image_id image_a) = VStr ''a''" "description image_a = ''old''"
    by (simp_all add: image_a_def)
  then show ?thesis
    by (simp add: update_description_def to_son_heart_rates save_image_a)
qed

section \<open>The validator\<close>

text \<open>
  The guards on the format, for every request: a value other than the type \<open>str\<close> raises
  the TypeError of line 139, the type \<open>str\<close> raises inside \<open>lower()\<close>; no value passes.
\<close>

lemma check_format_cases:
  "check_format d =
     (case map_of d ''format'' of
        None \<Rightarrow> Some (AttributeError ''image_info must have format.'')
      | Some f \<Rightarrow>
          if f = VStrType then Some (TypeError ''unbound method str.lower() needs an argument'')
          else Some (TypeError ''format must be type str''))"
  by (simp add: check_format_def py_lower_def split: option.splits)

text \<open>
  The case-insensitive test of lines 140-142 is written for strings, on which \<open>lower()\<close>
  takes \<open>PNG\<close> to \<open>png\<close>; line 138 keeps every string from reaching it.
\<close>

lemma py_lower_PNG: "py_lower (VStr ''PNG'') = Inr (VStr ''png'')"
  by code_simp

lemma check_format_never_passes: "check_format d \<noteq> None"
  by (simp add: check_format_cases split: option.splits)

lemma first_failure_None: "first_failure cs = None \<longleftrightarrow> (\<forall>c \<in> set cs. c = None)"
  by (induction cs rule: first_failure.induct) auto

text \<open>Hence the validator raises on every request, in every environment.\<close>

lemma image_parameter_check_rejects: "\<exists>e. image_parameter_check E r = Inl e"
proof (cases r)
  case (VDict d)
  have "first_failure
          [check_image_id d, check_image E d, check_height_width d, check_format d,
           check_processing_time d, check_process E d] \<noteq> None"
    using check_format_never_passes [of d] by (simp add: first_failure_None)
  then show ?thesis using VDict by (auto simp: image_parameter_check_def)
qed (simp_all add: image_parameter_check_def)

text \<open>
  And it never raises a ValueError: neither \<open>format invalid.\<close> nor \<open>process invalid.\<close>
  reaches the caller, whatever the request.
\<close>

lemma image_parameter_check_never_ValueError:
  "image_parameter_check E r \<noteq> Inl (ValueError m)"
proof (cases r)
  case (VDict d)
  have "\<exists>e. check_format d = Some e \<and> e \<noteq> ValueError m"
    by (simp add: check_format_cases split: option.splits)
  then obtain e where cf: "check_format d = Some e" "e \<noteq> ValueError m"
    by blast
  have a: "check_image_id d \<noteq> Some (ValueError m)"
    by (simp add: check_image_id_def split: option.splits)
  have b: "check_image E d \<noteq> Some (ValueError m)"
    by (simp add: check_image_def split: option.splits)
  have c: "check_height_width d \<noteq> Some (ValueError m)"
    by (simp add: check_height_width_def split: option.splits)
  have "first_failure
          [check_image_id d, check_image E d, check_height_width d, check_format d,
           check_processing_time d, check_process E d] \<noteq> Some (ValueError m)"
    using a b c cf
    by (cases "check_image_id d"; cases "check_image E d"; cases "check_height_width d") auto
  moreover have "first_failure
          [check_image_id d, check_image E d, check_height_width d, check_format d,
           check_processing_time d, check_process E d] \<noteq> None"
    using cf
    by (cases "check_image_id d"; cases "check_image E d"; cases "check_height_width d") auto
  ultimately show ?thesis using VDict
    by (auto simp: image_parameter_check_def split: option.splits)
qed (simp_all add: image_parameter_check_def)

text \<open>The guards before the format pass on the example requests; the format guard fires.\<close>

lemma request_root_checks:
  "check_image_id request_root = None"
  "check_image example_env request_root = None"
  "check_height_width request_root = None"
  "check_format request_root = Some (TypeError ''format must be type str'')"
  by (simp_all add: request_root_def check_image_id_def check_image_def
      check_height_width_def check_format_def isinstance_str_def isinstance_int_def
      is_base64_def example_env_def)

lemma request_child_checks:
  "check_image_id request_child = None"
  "check_image example_env request_child = None"
  "check_height_width request_child = None"
  "check_format request_child = Some (TypeError ''format must be type str'')"
  by (simp_all add: request_child_def request_root_def check_image_id_def check_image_def
      check_height_width_def check_format_def isinstance_str_def isinstance_int_def
      is_base64_def example_env_def)

lemma request_failure_checks:
  "check_image_id request_bmp = None"
  "check_image example_env request_bmp = None"
  "check_height_width request_bmp = None"
  "check_format request_bmp = Some (TypeError ''format must be type str'')"
  "check_image_id request_unknown_process = None"
  "check_image example_env request_unknown_process = None"
  "check_height_width request_unknown_process = None"
  "check_format request_unknown_process = Some (TypeError ''format must be type str'')"
  "check_image_id request_no_time = None"
  "check_image example_env request_no_time = None"
  "check_height_width request_no_time = None"
  "check_format request_no_time = Some (TypeError ''format must be type str'')"
  by (simp_all add: request_bmp_def request_unknown_process_def request_no_time_def
      check_image_id_def check_image_def
      check_height_width_def check_format_def isinstance_str_def isinstance_int_def
      is_base64_def example_env_def)

text \<open>
  C3. The claim: a format that is, case-insensitively, one of jpg, jpeg, png, tiff, gif
  passes the format check; \<open>PNG\<close> and \<open>png\<close> both pass; any other value fails with
  \<open>format invalid\<close>. The code: the format guards raise the TypeError of line 139 on
  \<open>png\<close> and on \<open>PNG\<close>, and the validator raises it on a request whose other fields are
  all valid.
\<close>

theorem check_format_rejects_png:
  "check_format [(''format'', VStr ''png'')] = Some (TypeError ''format must be type str'')
   \<and> check_format [(''format'', VStr ''PNG'')] = Some (TypeError ''format must be type str'')
   \<and> image_parameter_check example_env (VDict request_root)
       = Inl (TypeError ''format must be type str'')"
proof -
  have "image_parameter_check example_env (VDict request_root)
          = Inl (TypeError ''format must be type str'')"
    by (simp add: image_parameter_check_def request_root_checks)
  then show ?thesis by (simp add: check_format_def)
qed

text \<open>
  C8, as stated: the processing-time check accepts the field exactly when it is a
  non-negative integer. It fails at \<open>-5\<close>: the guards of lines 143-147 raise nothing.
\<close>

theorem check_processing_time_accepts_negative:
  "check_processing_time [(''processing_time'', VInt (- 5))] = None"
  by (simp add: check_processing_time_def isinstance_int_def)

text \<open>
  C8, amended: the processing-time check of the validator passes exactly when the field
  is present and is an \<open>int\<close> of any sign (a \<open>bool\<close> is an \<open>int\<close>).
\<close>

theorem check_processing_time_accepts_iff_int:
  "check_processing_time d = None \<longleftrightarrow>
     (\<exists>n. map_of d ''processing_time'' = Some (VInt n))
     \<or> (\<exists>b. map_of d ''processing_time'' = Some (VBool b))"
  by (auto simp: check_processing_time_def isinstance_int_def
      split: option.splits pyval.splits)

theorem check_processing_time_accepts_iff_int_witness:
  "check_processing_time [(''processing_time'', VInt 7)] = None
   \<and> check_processing_time [(''processing_time'', VStr ''7'')] \<noteq> None
   \<and> check_processing_time [] \<noteq> None"
  using check_processing_time_accepts_iff_int [of "[(''processing_time'', VInt 7)]"]
        check_processing_time_accepts_iff_int [of "[(''processing_time'', VStr ''7'')]"]
        check_processing_time_accepts_iff_int [of "[]"]
  by simp

text \<open>
  \<open>valid_process\<close> accepts exactly the names of \<open>dir(object)\<close> that are callable on
  \<open>Processing\<close>, whatever else the class defines.
\<close>

lemma valid_process_iff:
  "valid_process E p \<longleftrightarrow> (\<exists>n \<in> set dir_object. callable_Processing E n \<and> p = VStr n)"
  by (auto simp: valid_process_def)

text \<open>
  C7. The claim: the process field is accepted exactly when it names a capability that
  the Processor exposes. The code at a class \<open>Processing\<close> with the method \<open>hist_eq\<close>:
  the name is a capability and \<open>valid_process\<close> rejects it, since line 157 lists the
  names of \<open>object\<close>, not those of \<open>Processing\<close>.
\<close>

theorem valid_process_rejects_capability:
  "''hist_eq'' \<in> set (spec_capabilities example_env)
   \<and> valid_process example_env (VStr ''hist_eq'') = False"
  by (simp add: spec_capabilities_def example_env_def valid_process_iff)
     (simp add: dir_object_def)

section \<open>\<open>add_image\<close>\<close>

text \<open>
  The validator's exception is the exception of \<open>add_image\<close>, and the store is the one
  before the call. Since the validator raises on every request, \<open>add_image\<close> as a whole
  never writes.
\<close>

lemma add_image_propagates:
  "image_parameter_check E r = Inl e \<Longrightarrow> add_image E st uid r = (Some e, st)"
  by (simp add: add_image_def)

lemma add_image_never_stores:
  "\<exists>e. add_image E st uid r = (Some e, st)"
proof -
  obtain e where "image_parameter_check E r = Inl e"
    using image_parameter_check_rejects by blast
  then have "add_image E st uid r = (Some e, st)"
    by (rule add_image_propagates)
  then show ?thesis by blast
qed

text \<open>
  C4. The claim: a request that fails validation makes \<open>add_image\<close> fail with the error
  kind of its defect (a missing field, a wrong type, a format outside the enumeration,
  an unknown process, each told apart by the caller) and leaves the store unchanged.
  The code on three requests, each valid but for one defect (the format \<open>bmp\<close>, a process
  that \<open>Processing\<close> does not have, no \<open>processing_time\<close>): the store is unchanged, but
  all three end in the same TypeError of line 139, not in \<open>format invalid.\<close>,
  \<open>process invalid.\<close> and the AttributeError of line 144.
\<close>

theorem add_image_same_error_for_distinct_failures:
  "add_image example_env store_a ''u1'' (VDict request_bmp) =
     (Some (TypeError ''format must be type str''), store_a)
   \<and> add_image example_env store_a ''u1'' (VDict request_unknown_process) =
     (Some (TypeError ''format must be type str''), store_a)
   \<and> add_image example_env store_a ''u1'' (VDict request_no_time) =
     (Some (TypeError ''format must be type str''), store_a)"
  by (simp add: add_image_def image_parameter_check_def request_failure_checks)

text \<open>The ledger update raises on an empty history and leaves the users as they were.\<close>

lemma update_user_uploads_empty:
  "update_user_uploads ucoll uid [] = (Some (IndexError ''list index out of range''), ucoll)"
  by (simp add: update_user_uploads_def)

text \<open>The document built for a request with a string id has that id and the given history.\<close>

lemma new_image_id:
  "new_image E t uid info descr hist = Inr i \<Longrightarrow>
   map_of info ''image_id'' = Some (VStr iid) \<Longrightarrow> image_id i = iid"
  by (auto simp: new_image_def clean_char_def split: option.splits if_splits)

lemma new_image_history:
  "new_image E t uid info descr hist = Inr i \<Longrightarrow> process_history i = hist"
  by (auto simp: new_image_def split: option.splits)

text \<open>
  The linking step when \<open>_add_child\<close> returns the child id: the history for the new image
  is that of the parent followed by the parent id, and the collection is the one before
  with the parent written back with the child id appended.
\<close>

lemma link_parent_found:
  assumes par: "map_of info ''parent_id'' = Some pid"
    and found: "find_image coll pid = Some P"
    and iid: "map_of info ''image_id'' = Some c"
    and saved: "add_child coll c pid = (Inr (Some c), icoll)"
  shows "link_parent coll info = Inr (process_history P @ [pid], icoll)"
    and "icoll = upsert_image (P\<lparr>child_ids := child_ids P @ [c]\<rparr>) coll"
    and "find_image icoll pid = Some (P\<lparr>child_ids := child_ids P @ [c]\<rparr>)"
proof -
  let ?P' = "P\<lparr>child_ids := child_ids P @ [c]\<rparr>"
  show lp: "link_parent coll info = Inr (process_history P @ [pid], icoll)"
    and ic: "icoll = upsert_image ?P' coll"
    using assms
    by (auto simp: link_parent_def add_child_def split: sum.splits dest: save_image_result)
  have "VStr (image_id ?P') = pid" using find_image_id [OF found] by simp
  then show "find_image icoll pid = Some ?P'"
    using find_image_upsert_same [of ?P' coll] ic by simp
qed

text \<open>
  After the link, the statements that follow either stop at an exception with the
  Image collection as the link left it, or end with the new document written to it.
\<close>

lemma add_image_validated_images:
  assumes lp: "link_parent (images st) info = Inr (hist, icoll)"
    and iid: "map_of info ''image_id'' = Some (VStr iid)"
  shows "(fst (add_image_validated E st uid info) \<noteq> None
            \<and> images (snd (add_image_validated E st uid info)) = icoll)
         \<or> (\<exists>i. image_id i = iid \<and> process_history i = hist
                \<and> add_image_validated E st uid info
                    = (None, st\<lparr>images := upsert_image i icoll,
                                 users := snd (update_user_uploads (users st) uid hist)\<rparr>))"
proof (cases "update_user_uploads (users st) uid hist")
  case (Pair eo ucoll)
  show ?thesis
  proof (cases eo)
    case (Some e)
    with Pair lp show ?thesis by (simp add: add_image_validated_def)
  next
    case None
    let ?descr = "case map_of info ''description'' of None \<Rightarrow> VStr ''None'' | Some d \<Rightarrow> d"
    show ?thesis
    proof (cases "new_image E (now E) uid info ?descr hist")
      case (Inl e)
      with None Pair lp show ?thesis by (simp add: add_image_validated_def)
    next
      case (Inr i)
      have id: "image_id i = iid" using new_image_id [OF Inr iid] .
      have hi: "process_history i = hist" using new_image_history [OF Inr] .
      show ?thesis
      proof (cases "save_image i icoll")
        case (Inl e)
        with Inr None Pair lp show ?thesis by (simp add: add_image_validated_def)
      next
        case r: (Inr icoll')
        have "icoll' = upsert_image i icoll" using save_image_result [OF r] .
        with r Inr None Pair lp id hi show ?thesis
          by (auto simp: add_image_validated_def)
      qed
    qed
  qed
qed

text \<open>
  The statements of \<open>add_image\<close> after the validator, on a request with a string id and
  a \<open>parent_id\<close> that names a stored image \<open>P\<close> other than the new image: when they end
  without an exception, the new image is stored with the history of \<open>P\<close> followed by the
  id of \<open>P\<close>, and \<open>P\<close> is stored with the new id appended to its children.
\<close>

lemma add_image_validated_links:
  assumes par: "map_of info ''parent_id'' = Some pid"
    and found: "find_image (images st) pid = Some P"
    and iid: "map_of info ''image_id'' = Some (VStr iid)"
    and new: "VStr iid \<noteq> pid"
    and ok: "add_image_validated E st uid info = (None, st')"
  shows "\<exists>i. find_image (images st') (VStr iid) = Some i
           \<and> process_history i = process_history P @ [pid]
           \<and> find_image (images st') pid = Some (P\<lparr>child_ids := child_ids P @ [VStr iid]\<rparr>)"
proof -
  let ?P' = "P\<lparr>child_ids := child_ids P @ [VStr iid]\<rparr>"
  from ok par found iid obtain icoll where
    saved: "add_child (images st) (VStr iid) pid = (Inr (Some (VStr iid)), icoll)"
    by (auto simp: add_image_validated_def link_parent_def add_child_def
        split: sum.splits prod.splits)
  have lp: "link_parent (images st) info = Inr (process_history P @ [pid], icoll)"
    and p: "find_image icoll pid = Some ?P'"
    using link_parent_found [OF par found iid saved] by simp_all
  from add_image_validated_images [OF lp iid, of E uid] ok
  obtain i where i: "image_id i = iid" "process_history i = process_history P @ [pid]"
    "images st' = upsert_image i icoll"
    by auto
  have "find_image (upsert_image i icoll) pid = find_image icoll pid"
    using new i(1) by (intro find_image_upsert_other) auto
  with p i find_image_upsert_same [of i icoll] show ?thesis by auto
qed

text \<open>These statements do end without an exception on the request for \<open>b\<close> as a child of \<open>a\<close>.\<close>

lemma request_child_run:
  "add_image_validated example_env store_a ''u1'' request_child =
     (None,
      \<lparr>images =
         [image_a\<lparr>child_ids := [VStr ''b'']\<rparr>,
          \<lparr>image_id = ''b'', image_field = None, user_id = ''u1'', timestamp = 0,
           width = 4, height = 4, format = ''png'', description = ''None'', child_ids = [],
           process_history = [VStr ''a''], processing_time = 5, process = ''hist_eq''\<rparr>],
       users = [\<lparr>u_user_id = ''u1'', uploads = [(VStr ''a'', VStr ''a'')]\<rparr>]\<rparr>)"
  by (simp add: add_image_validated_def link_parent_def add_child_def request_child_def
      request_root_def store_a_def image_a_def save_image_def int64_def
      update_user_uploads_def add_user_def save_user_def store_upload_def hashable_def
      uploads_key_ok_def new_image_def clean_char_def clean_int_def example_env_def Let_def)

text \<open>
  C1. The claim: for a valid request whose \<open>parent_id\<close> names a stored image \<open>P\<close>, the new
  image is stored with the history of \<open>P\<close> followed by the id of \<open>P\<close>, and \<open>P\<close> gains the
  new id as a child. The code on the store holding \<open>a\<close> and the valid request for \<open>b\<close> as
  a child of \<open>a\<close>: \<open>add_image\<close> raises the TypeError of line 139 and the store is
  unchanged; \<open>b\<close> is not stored and \<open>a\<close> has no child.
\<close>

theorem add_image_child_request_rejected:
  "add_image example_env store_a ''u1'' (VDict request_child) =
     (Some (TypeError ''format must be type str''), store_a)
   \<and> find_image (images store_a) (VStr ''b'') = None
   \<and> find_image (images store_a) (VStr ''a'') = Some image_a
   \<and> child_ids image_a = []"
proof -
  have "add_image example_env store_a ''u1'' (VDict request_child) =
          (Some (TypeError ''format must be type str''), store_a)"
    by (simp add: add_image_def image_parameter_check_def request_child_checks)
  then show ?thesis by (simp add: store_a_def image_a_def)
qed

text \<open>
  C2. The claim: for a valid request without \<open>parent_id\<close>, the image is stored with an
  empty history and the owner's ledger holds it under its own id. The code on the valid
  request for the root \<open>b\<close>: \<open>add_image\<close> raises the TypeError of line 139 and stores
  nothing; and the statements after the validator, run on the same request, raise
  IndexError at \<open>process_history[0]\<close> (line 189) and store nothing either.
\<close>

theorem add_image_root_request_fails:
  "add_image example_env store_a ''u1'' (VDict request_root) =
     (Some (TypeError ''format must be type str''), store_a)
   \<and> add_image_validated example_env store_a ''u1'' request_root =
     (Some (IndexError ''list index out of range''), store_a)"
proof -
  have "add_image example_env store_a ''u1'' (VDict request_root) =
          (Some (TypeError ''format must be type str''), store_a)"
    by (simp add: add_image_def image_parameter_check_def request_root_checks)
  moreover have "link_parent (images store_a) request_root = Inr ([], images store_a)"
    by (simp add: link_parent_def request_root_def)
  then have "add_image_validated example_env store_a ''u1'' request_root =
               (Some (IndexError ''list index out of range''), store_a)"
    by (simp add: add_image_validated_def update_user_uploads_empty)
  ultimately show ?thesis by simp
qed




end
